theory Spec2Isabelle
  imports Complex_Main "HOL-Library.Word"
begin

section \<open>Conventions of the embedding\<close>

text \<open>
  The development embeds \<^verbatim>\<open>src/wave_types.cpp\<close> of HydroChrono: the wave force
  providers (regular and irregular waves), the dispersion solver, the wave spectra, the
  free-surface synthesis, the IRF resampling and the excitation convolution.

  \<^item> A C++ \<^verbatim>\<open>double\<close> is a \<^typ>\<open>real\<close>: arithmetic is exact, and the
    non-finite values of IEEE arithmetic (a division by zero, the root of a negative
    number) are outside the model. Every statement below is about the algorithm on real
    numbers.
  \<^item> \<^verbatim>\<open>std::vector<double>\<close> and \<^verbatim>\<open>Eigen::VectorXd\<close> are lists; an
    \<^verbatim>\<open>Eigen::MatrixXd\<close> is the list of its columns.
  \<^item> An exception is a value \<open>Inl e\<close> of the result type. A read or write outside a
    container, which C++ leaves undefined, is a fault of the model as well
    (\<open>IndexBelowZero\<close>, \<open>CursorBelowZero\<close>, \<open>IndexPastEnd\<close>), so that no theorem depends on what such an
    access would return.
  \<^item> \<^verbatim>\<open>int\<close> and Eigen's \<^verbatim>\<open>Index\<close> are \<^typ>\<open>int\<close>; \<^verbatim>\<open>size_t\<close> is a
    64-bit word where the source subtracts from it, a \<^typ>\<open>nat\<close> where it only counts up.
\<close>

datatype error =
    OutOfWindow       \<comment> \<open>the \<^verbatim>\<open>runtime_error\<close> "trying to find free surface elevation at a time out of bounds"\<close>
  | WrongTau          \<comment> \<open>the \<^verbatim>\<open>runtime_error\<close> "wrong tau value ... not between ..."\<close>
  | IndexBelowZero    \<comment> \<open>an access at a negative index\<close>
  | CursorBelowZero   \<comment> \<open>the walk-back loop of the convolution reading the history at a negative index\<close>
  | IndexPastEnd      \<comment> \<open>an access at an index at or past the size\<close>
  | NegativeSize      \<comment> \<open>Eigen's assertion on a vector of negative length\<close>

fun and_then :: "error + 'a \<Rightarrow> ('a \<Rightarrow> error + 'b) \<Rightarrow> error + 'b" where
  "and_then (Inl e) f = Inl e"
| "and_then (Inr x) f = f x"

definition vec_at :: "'a list \<Rightarrow> int \<Rightarrow> error + 'a" where
  "vec_at xs i =
     (if i < 0 then Inl IndexBelowZero
      else if int (length xs) \<le> i then Inl IndexPastEnd
      else Inr (xs ! nat i))"

text \<open>
  A counted loop \<^verbatim>\<open>for (i = 0; i < n; ++i) body\<close> whose body may throw:
  \<open>for_loop [0..<n] body s\<close> runs the body on the loop's state for each index in turn and
  stops at the first error.
\<close>

fun for_loop :: "nat list \<Rightarrow> (nat \<Rightarrow> 's \<Rightarrow> error + 's) \<Rightarrow> 's \<Rightarrow> error + 's" where
  "for_loop [] body s = Inr s"
| "for_loop (i # rest) body s =
     (case body i s of Inl e \<Rightarrow> Inl e | Inr s' \<Rightarrow> for_loop rest body s')"

text \<open>\<^verbatim>\<open>static_cast<int>(x)\<close> of a double: truncation towards zero.\<close>

definition static_cast_int :: "real \<Rightarrow> int" where
  "static_cast_int x = (if 0 \<le> x then \<lfloor>x\<rfloor> else \<lceil>x\<rceil>)"

text \<open>
  \<^verbatim>\<open>Eigen::VectorXd::LinSpaced(size, low, high)\<close>, from Eigen's documentation: \<open>size\<close>
  equally spaced values from \<open>low\<close> to \<open>high\<close>, the last one \<open>high\<close> itself; a vector of
  size 1 holds \<open>high\<close>. In exact arithmetic both of Eigen's evaluation orders give
  \<open>low + i * (high - low) / (size - 1)\<close>.
\<close>

definition LinSpaced :: "int \<Rightarrow> real \<Rightarrow> real \<Rightarrow> error + real list" where
  "LinSpaced n low high =
     (if n < 0 then Inl NegativeSize
      else if n = 1 then Inr [high]
      else Inr (map (\<lambda>i. if int i = n - 1 then high
                          else low + real i * ((high - low) / real_of_int (n - 1)))
                    [0 ..< nat n]))"


section \<open>Regular waves\<close>

record RegularWaveInfo =
  freq_list :: "real list"
  excitation_mag_matrix :: "real list list list"
  excitation_phase_matrix :: "real list list list"

record RegularWave =
  num_bodies :: nat
  regular_wave_amplitude :: real
  regular_wave_omega :: real
  wave_info :: "RegularWaveInfo list"
  excitation_force_mag :: "real list"
  excitation_force_phase :: "real list"

text \<open>The element \<open>(i, j, k)\<close> of a rank-3 tensor, stored as nested lists.\<close>

definition tensor_at :: "real list list list \<Rightarrow> int \<Rightarrow> int \<Rightarrow> int \<Rightarrow> error + real" where
  "tensor_at m i j k =
     and_then (vec_at m i) (\<lambda>plane. and_then (vec_at plane j) (\<lambda>row. vec_at row k))"

definition GetOmegaDelta :: "RegularWave \<Rightarrow> error + real" where
  "GetOmegaDelta st =
     and_then (vec_at (wave_info st) 0) (\<lambda>info.
     and_then (vec_at (freq_list info) (int (length (freq_list info)) - 1)) (\<lambda>omega_max.
       let num_freqs = real (length (freq_list info)) in
       Inr (omega_max / num_freqs)))"

definition GetExcitationMagInterp :: "RegularWave \<Rightarrow> int \<Rightarrow> int \<Rightarrow> int \<Rightarrow> real \<Rightarrow> error + real" where
  "GetExcitationMagInterp st b i j freq_index_des =
     (let freq_interp_val = freq_index_des - real_of_int \<lfloor>freq_index_des\<rfloor> in
      and_then (vec_at (wave_info st) b) (\<lambda>info.
      and_then (tensor_at (excitation_mag_matrix info) i j
                  (static_cast_int (real_of_int \<lfloor>freq_index_des\<rfloor>))) (\<lambda>excitationMagFloor.
      and_then (tensor_at (excitation_mag_matrix info) i j
                  (static_cast_int (real_of_int \<lfloor>freq_index_des\<rfloor>) + 1)) (\<lambda>excitationMagCeil.
        Inr ((freq_interp_val * (excitationMagCeil - excitationMagFloor)) + excitationMagFloor)))))"

definition GetExcitationPhaseInterp :: "RegularWave \<Rightarrow> int \<Rightarrow> int \<Rightarrow> int \<Rightarrow> real \<Rightarrow> error + real" where
  "GetExcitationPhaseInterp st b i j freq_index_des =
     (let freq_interp_val = freq_index_des - real_of_int \<lfloor>freq_index_des\<rfloor> in
      and_then (vec_at (wave_info st) b) (\<lambda>info.
      and_then (tensor_at (excitation_phase_matrix info) i j
                  (static_cast_int (real_of_int \<lfloor>freq_index_des\<rfloor>))) (\<lambda>excitationPhaseFloor.
      and_then (tensor_at (excitation_phase_matrix info) i j
                  (static_cast_int (real_of_int \<lfloor>freq_index_des\<rfloor>) + 1)) (\<lambda>excitationPhaseCeil.
        Inr ((freq_interp_val * (excitationPhaseCeil - excitationPhaseFloor)) + excitationPhaseFloor)))))"

text \<open>
  \<^verbatim>\<open>RegularWave::Initialize\<close>: the two vectors are resized to \<open>6 * num_bodies\<close> and
  every entry is then assigned.
\<close>

definition Initialize :: "RegularWave \<Rightarrow> error + RegularWave" where
  "Initialize st =
     (let total_dofs = 6 * num_bodies st in
      and_then (GetOmegaDelta st) (\<lambda>wave_omega_delta.
        let freq_index_des = (regular_wave_omega st / wave_omega_delta) - 1 in
        for_loop [0 ..< num_bodies st]
          (\<lambda>b. for_loop [0 ..< 6]
             (\<lambda>rowEx s.
                let body_offset = 6 * b in
                and_then (GetExcitationMagInterp s (int b) (int rowEx) 0 freq_index_des) (\<lambda>mag.
                and_then (GetExcitationPhaseInterp s (int b) (int rowEx) 0 freq_index_des) (\<lambda>phase.
                  Inr (s\<lparr> excitation_force_mag := (excitation_force_mag s)[body_offset + rowEx := mag],
                          excitation_force_phase := (excitation_force_phase s)[body_offset + rowEx := phase] \<rparr>)))))
          (st\<lparr> excitation_force_mag := replicate total_dofs 0,
               excitation_force_phase := replicate total_dofs 0 \<rparr>)))"

text \<open>
  \<^verbatim>\<open>RegularWave::GetForceAtTime\<close>: the magnitude is read at \<open>body_offset + rowEx\<close>,
  the phase at \<open>rowEx\<close>.
\<close>

definition RegularWave_GetForceAtTime :: "RegularWave \<Rightarrow> real \<Rightarrow> error + real list" where
  "RegularWave_GetForceAtTime st t =
     for_loop [0 ..< num_bodies st]
       (\<lambda>b. let body_offset = 6 * b in
          for_loop [0 ..< 6]
            (\<lambda>rowEx f.
               and_then (vec_at (excitation_force_mag st) (int (body_offset + rowEx))) (\<lambda>mag.
               and_then (vec_at (excitation_force_phase st) (int rowEx)) (\<lambda>phase.
                 Inr (f[body_offset + rowEx :=
                        mag * regular_wave_amplitude st * cos (regular_wave_omega st * t + phase)])))))
       (replicate (num_bodies st * 6) 0)"

text \<open>
  Two bodies over the frequencies 1 and 2 rad/s, a wave of amplitude 2 at 1 rad/s; every
  excitation magnitude is 1, every phase of the first body 0, every phase of the second
  body \<open>pi\<close>.
\<close>

definition two_body_regular_wave :: RegularWave where
  "two_body_regular_wave =
     \<lparr> num_bodies = 2, regular_wave_amplitude = 2, regular_wave_omega = 1,
       wave_info =
         [\<lparr> freq_list = [1, 2], excitation_mag_matrix = replicate 6 [[1, 1]],
             excitation_phase_matrix = replicate 6 [[0, 0]] \<rparr>,
          \<lparr> freq_list = [1, 2], excitation_mag_matrix = replicate 6 [[1, 1]],
             excitation_phase_matrix = replicate 6 [[pi, pi]] \<rparr>],
       excitation_force_mag = [], excitation_force_phase = [] \<rparr>"

text \<open>
  The force the regular-wave formula gives with each body's own phase:
  \<open>magnitude[6 b + d] * amplitude * cos (omega * t + phase[6 b + d])\<close>.
\<close>

definition regular_force_formula :: "RegularWave \<Rightarrow> real \<Rightarrow> nat \<Rightarrow> nat \<Rightarrow> real" where
  "regular_force_formula st t b d =
     excitation_force_mag st ! (6 * b + d) * regular_wave_amplitude st *
     cos (regular_wave_omega st * t + excitation_force_phase st ! (6 * b + d))"

section \<open>The dispersion solver\<close>

text \<open>
  The \<^verbatim>\<open>while\<close> loop of \<^verbatim>\<open>ComputeWaveNumbers\<close> on its variables \<open>k\<close>,
  \<open>error\<close> and \<open>iterations\<close>; what it returns is the \<open>k\<close> the source stores.
\<close>

function wave_number_loop ::
  "real \<Rightarrow> real \<Rightarrow> real \<Rightarrow> real \<Rightarrow> int \<Rightarrow> real \<Rightarrow> real \<Rightarrow> int \<Rightarrow> real" where
  "wave_number_loop omega water_depth g tolerance max_iterations k err iterations =
     (if err > tolerance \<and> iterations < max_iterations then
        (let tanh_kh = tanh (k * water_depth);
             f = omega * omega - g * k * tanh_kh;
             df = -2.0 * g * tanh_kh - g * k * water_depth * (1.0 - tanh_kh * tanh_kh);
             delta_k = f / df
         in wave_number_loop omega water_depth g tolerance max_iterations
              (k - delta_k) \<bar>delta_k\<bar> (iterations + 1))
      else k)"
  by pat_completeness auto
termination
  by (relation "measure (\<lambda>(omega, water_depth, g, tolerance, max_iterations, k, err, iterations).
                  nat (max_iterations - iterations))") auto

definition ComputeWaveNumbers :: "real list \<Rightarrow> real \<Rightarrow> real \<Rightarrow> real \<Rightarrow> int \<Rightarrow> real list" where
  "ComputeWaveNumbers omegas water_depth g tolerance max_iterations =
     map (\<lambda>i. let omega = omegas ! i;
                   k = omega * omega / g
               in wave_number_loop omega water_depth g tolerance max_iterations k 1.0 0)
         [0 ..< length omegas]"

text \<open>The call with the default arguments \<open>g = 9.81\<close>, \<open>tolerance = 1e-6\<close>, \<open>max_iterations = 100\<close>.\<close>

definition ComputeWaveNumbers_default :: "real list \<Rightarrow> real \<Rightarrow> real list" where
  "ComputeWaveNumbers_default omegas water_depth =
     ComputeWaveNumbers omegas water_depth 9.81 0.000001 100"







section \<open>The wave spectra\<close>



section \<open>The free-surface synthesis\<close>

text \<open>
  The pseudo-random generator is a parameter of the model: \<open>mt19937 seed\<close> is the state
  of a freshly seeded \<^verbatim>\<open>std::mt19937\<close>, and \<open>uniform_dist rng\<close> is one draw of
  \<^verbatim>\<open>std::uniform_real_distribution<double>(0, 2 pi)\<close> with the state after it.
\<close>

fun draw_phases :: "('g \<Rightarrow> real \<times> 'g) \<Rightarrow> nat \<Rightarrow> 'g \<Rightarrow> real list" where
  "draw_phases uniform_dist 0 rng = []"
| "draw_phases uniform_dist (Suc n) rng = (let (x, rng') = uniform_dist rng in x # draw_phases uniform_dist n rng')"

definition FreeSurfaceElevation ::
  "(int \<Rightarrow> 'g) \<Rightarrow> ('g \<Rightarrow> real \<times> 'g) \<Rightarrow> real list \<Rightarrow> real list \<Rightarrow> real list \<Rightarrow> real \<Rightarrow> int
     \<Rightarrow> error + real list" where
  "FreeSurfaceElevation mt19937 uniform_dist freqs_hz spectral_densities time_index water_depth seed =
     and_then (vec_at freqs_hz (int (length freqs_hz) - 1)) (\<lambda>last_freq.
       let delta_f = last_freq / real (length freqs_hz);
           omegas = map (\<lambda>i. 2 * pi * freqs_hz ! i) [0 ..< length freqs_hz];
           wave_numbers = ComputeWaveNumbers_default omegas water_depth;
           A = map (\<lambda>i. 2 * spectral_densities ! i * delta_f) [0 ..< length spectral_densities];
           sqrt_A = map (\<lambda>i. sqrt (A ! i)) [0 ..< length A];
           omegas_t = map (\<lambda>i. map (\<lambda>j. time_index ! i * omegas ! j) [0 ..< length omegas])
                          [0 ..< length time_index];
           phases = draw_phases uniform_dist (length omegas) (mt19937 seed)
       in for_loop [0 ..< length spectral_densities]
            (\<lambda>i. for_loop [0 ..< length time_index]
               (\<lambda>j eta.
                  and_then (vec_at (omegas_t ! j) (int i)) (\<lambda>omega_t.
                  and_then (vec_at phases (int i)) (\<lambda>phase.
                    Inr (eta[j := eta ! j + sqrt_A ! i * cos (omega_t + phase)])))))
            (replicate (length time_index) 0.0))"

section \<open>Irregular waves: the state, the IRF grid and the elevation history\<close>

record IrregularWaves =
  num_bodies :: nat
  simulation_dt :: real
  simulation_duration :: real
  ramp_duration :: real
  seed :: int
  water_depth :: real
  ex_irf_sampled :: "real list list list"
  ex_irf_time_sampled :: "real list list"
  ex_irf_width_sampled :: "real list list"
  spectrum_frequencies :: "real list"
  spectral_densities :: "real list"
  free_surface_time_sampled :: "real list"
  free_surface_elevation_sampled :: "real list"

text \<open>
  The integration widths of one time grid, as \<^verbatim>\<open>CalculateWidthIRF\<close> computes them:
  half the gap to the next sample plus half the gap to the previous one (\<open>abs\<close> is the
  overload for \<^verbatim>\<open>double\<close>).
\<close>

definition width_array_of :: "real list \<Rightarrow> real list" where
  "width_array_of time_array =
     map (\<lambda>ii. (if int ii < int (length time_array) - 1
                  then 0.5 * \<bar>time_array ! (ii + 1) - time_array ! ii\<bar> else 0) +
                (if ii > 0 then 0.5 * \<bar>time_array ! ii - time_array ! (ii - 1)\<bar> else 0))
         [0 ..< length time_array]"








text \<open>
  What the first loop of \<^verbatim>\<open>CreateFreeSurfaceElevation\<close> computes, as extrema: the least
  and the greatest among zero and the first and last sample time of every body's grid.
\<close>

definition irf_end_times :: "real list list \<Rightarrow> real set" where
  "irf_end_times grids = insert 0 (\<Union>g\<in>set grids. {hd g, last g})"

definition t_irf_min :: "real list list \<Rightarrow> real" where
  "t_irf_min grids = Min (irf_end_times grids)"

definition t_irf_max :: "real list list \<Rightarrow> real" where
  "t_irf_max grids = Max (irf_end_times grids)"

section \<open>The excitation convolution\<close>

text \<open>
  Modelled from the spec: \<^verbatim>\<open>get_lower_index\<close> is declared in
  \<^verbatim>\<open>hydroc/helper.h\<close>, which is not among the sources. The specification has it locate
  the bracketing pair of history samples around the query time; the model returns the
  index of the last sample that is not after the query time. The convolution below
  takes the helper as a parameter, and this definition is the instance the examples use.
\<close>

definition get_lower_index :: "real \<Rightarrow> real list \<Rightarrow> int" where
  "get_lower_index query ticks = int (length (takeWhile (\<lambda>x. x \<le> query) ticks)) - 1"

text \<open>
  The walk-back loop \<^verbatim>\<open>while (free_surface_time_sampled_[idx] > t_tau) idx -= 1\<close>:
  every test of the condition reads the history at \<open>idx\<close>.
\<close>

function walk_back :: "real list \<Rightarrow> real \<Rightarrow> int \<Rightarrow> error + int" where
  "walk_back time_sampled t_tau idx =
     (if idx < 0 then Inl CursorBelowZero
      else if int (length time_sampled) \<le> idx then Inl IndexPastEnd
      else if time_sampled ! nat idx > t_tau then walk_back time_sampled t_tau (idx - 1)
      else Inr idx)"
  by pat_completeness auto
termination
  by (relation "measure (\<lambda>(time_sampled, t_tau, idx). nat (idx + 1))") auto

text \<open>
  The cursor \<^verbatim>\<open>ExcitationConvolution\<close> starts from, for the first lag \<open>t_tau\<close>.
\<close>

definition start_index ::
  "(real \<Rightarrow> real list \<Rightarrow> int) \<Rightarrow> real list \<Rightarrow> real \<Rightarrow> real \<Rightarrow> real \<Rightarrow> int" where
  "start_index lower_index time_sampled tmin tmax t_tau =
     (if t_tau \<le> tmin then 0
      else if t_tau \<ge> tmax then int (length time_sampled) - 2
      else lower_index t_tau time_sampled)"

text \<open>The element \<open>(dof, j)\<close> of a matrix stored as the list of its columns.\<close>

definition mat_at :: "real list list \<Rightarrow> int \<Rightarrow> int \<Rightarrow> error + real" where
  "mat_at m row col = and_then (vec_at m col) (\<lambda>column. vec_at column row)"

text \<open>
  One pass of the loop over the IRF samples, on the loop's variables \<open>idx\<close> and \<open>f_ex\<close>.
  In the interior branch the source declares a second \<open>eta_val\<close> that hides the outer
  one, so the product below it reads the outer variable, which was never assigned:
  \<open>indet j\<close> stands for the value found there in pass \<open>j\<close>.
\<close>

definition convolution_pass ::
  "(nat \<Rightarrow> real) \<Rightarrow> IrregularWaves \<Rightarrow> real list \<Rightarrow> real list list \<Rightarrow> real list \<Rightarrow> real \<Rightarrow> real
     \<Rightarrow> int \<Rightarrow> real \<Rightarrow> nat \<Rightarrow> int \<times> real \<Rightarrow> error + int \<times> real" where
  "convolution_pass indet st irf_time_array irf_val_mat irf_width_array tmin tmax dof time j =
     (\<lambda>(idx, f_ex).
        let tau = irf_time_array ! j;
            t_tau = time - tau
        in if tmin \<le> t_tau \<and> t_tau \<le> tmax then
             and_then (walk_back (free_surface_time_sampled st) t_tau idx) (\<lambda>idx.
             and_then (vec_at (free_surface_time_sampled st) idx) (\<lambda>t1.
             and_then (vec_at (free_surface_time_sampled st) (idx + 1)) (\<lambda>t2.
             and_then
               (if t_tau = t1 then vec_at (free_surface_time_sampled st) idx
                else if t_tau = t2 then vec_at (free_surface_time_sampled st) (idx + 1)
                else if t_tau > t1 \<and> t_tau < t2 then
                  and_then (vec_at (free_surface_elevation_sampled st) idx) (\<lambda>eta1.
                  and_then (vec_at (free_surface_elevation_sampled st) (idx + 1)) (\<lambda>eta2.
                    let w1 = (t2 - t_tau) / (t2 - t1);
                        w2 = 1.0 - w1;
                        inner_eta_val = w1 * eta1 + w2 * eta2
                    in Inr (indet j)))
                else Inl WrongTau) (\<lambda>eta_val.
             and_then (mat_at irf_val_mat dof (int j)) (\<lambda>irf_val.
             and_then (vec_at irf_width_array (int j)) (\<lambda>irf_width.
               Inr (idx, f_ex + irf_val * eta_val * irf_width)))))))
           else Inl OutOfWindow)"

definition ExcitationConvolution ::
  "(real \<Rightarrow> real list \<Rightarrow> int) \<Rightarrow> (nat \<Rightarrow> real) \<Rightarrow> IrregularWaves \<Rightarrow> int \<Rightarrow> int \<Rightarrow> real
     \<Rightarrow> error + real" where
  "ExcitationConvolution lower_index indet st body dof time =
     and_then (vec_at (ex_irf_time_sampled st) body) (\<lambda>irf_time_array.
     and_then (vec_at (ex_irf_sampled st) body) (\<lambda>irf_val_mat.
     and_then (vec_at (ex_irf_width_sampled st) body) (\<lambda>irf_width_array.
     and_then (vec_at (free_surface_time_sampled st) 0) (\<lambda>tmin.
     and_then (vec_at (free_surface_time_sampled st)
                 (int (length (free_surface_time_sampled st)) - 1)) (\<lambda>tmax.
     and_then (vec_at irf_time_array 0) (\<lambda>tau0.
       let t_tau = time - tau0;
           idx = start_index lower_index (free_surface_time_sampled st) tmin tmax t_tau
       in and_then
            (for_loop [0 ..< length irf_time_array]
               (convolution_pass indet st irf_time_array irf_val_mat irf_width_array tmin tmax dof time)
               (idx, 0.0))
            (\<lambda>(idx, f_ex). Inr f_ex)))))))"

definition IrregularWaves_GetForceAtTime ::
  "(real \<Rightarrow> real list \<Rightarrow> int) \<Rightarrow> (nat \<Rightarrow> real) \<Rightarrow> IrregularWaves \<Rightarrow> real \<Rightarrow> error + real list" where
  "IrregularWaves_GetForceAtTime lower_index indet st t =
     for_loop [0 ..< num_bodies st]
       (\<lambda>body. for_loop [0 ..< 6]
          (\<lambda>dof f.
             and_then (ExcitationConvolution lower_index indet st (int body) (int dof) t) (\<lambda>f_dof.
               let b_offset = body * 6 in Inr (f[b_offset + dof := f_dof]))))
       (replicate (num_bodies st * 6) 0.0)"

text \<open>
  The convolution in the words of the specification: the elevation at a query time is
  the stored elevation at a sample time and the linear interpolation of the two
  bracketing elevations between two sample times; the force is the sum of
  \<open>IRF[dof, j] * eta (t - tau j) * width j\<close>.
\<close>

definition elevation_at :: "real list \<Rightarrow> real list \<Rightarrow> real \<Rightarrow> real" where
  "elevation_at time_sampled elevation_sampled t =
     (let i = nat (get_lower_index t time_sampled) in
      if t = time_sampled ! i then elevation_sampled ! i
      else (let t1 = time_sampled ! i; t2 = time_sampled ! (i + 1);
                w1 = (t2 - t) / (t2 - t1)
            in w1 * elevation_sampled ! i + (1 - w1) * elevation_sampled ! (i + 1)))"

definition convolution_formula :: "IrregularWaves \<Rightarrow> nat \<Rightarrow> nat \<Rightarrow> real \<Rightarrow> real" where
  "convolution_formula st body dof t =
     (\<Sum>j < length (ex_irf_time_sampled st ! body).
        ex_irf_sampled st ! body ! j ! dof *
        elevation_at (free_surface_time_sampled st) (free_surface_elevation_sampled st)
          (t - ex_irf_time_sampled st ! body ! j) *
        ex_irf_width_sampled st ! body ! j)"

text \<open>
  The data invariants the specification states for the tables a convolution query reads:
  the body has its IRF time grid, matrix and widths; the grid is ascending and not
  empty; the widths and the matrix columns are parallel to it, each column with an
  entry for the degree of freedom; the history has at least two samples, ascending,
  each with its elevation.
\<close>

definition convolution_ready :: "IrregularWaves \<Rightarrow> int \<Rightarrow> int \<Rightarrow> bool" where
  "convolution_ready st body dof \<longleftrightarrow>
     0 \<le> body \<and> body < int (length (ex_irf_time_sampled st)) \<and>
     body < int (length (ex_irf_sampled st)) \<and> body < int (length (ex_irf_width_sampled st)) \<and>
     ex_irf_time_sampled st ! nat body \<noteq> [] \<and> sorted (ex_irf_time_sampled st ! nat body) \<and>
     length (ex_irf_time_sampled st ! nat body) \<le> length (ex_irf_width_sampled st ! nat body) \<and>
     length (ex_irf_time_sampled st ! nat body) \<le> length (ex_irf_sampled st ! nat body) \<and>
     0 \<le> dof \<and>
     list_all (\<lambda>column. dof < int (length column)) (ex_irf_sampled st ! nat body) \<and>
     2 \<le> length (free_surface_time_sampled st) \<and> sorted (free_surface_time_sampled st) \<and>
     length (free_surface_time_sampled st) \<le> length (free_surface_elevation_sampled st)"

text \<open>A time lies in the window of the history: between its first and its last sample time.\<close>

definition in_window :: "IrregularWaves \<Rightarrow> real \<Rightarrow> bool" where
  "in_window st t \<longleftrightarrow>
     hd (free_surface_time_sampled st) \<le> t \<and> t \<le> last (free_surface_time_sampled st)"

text \<open>The lag \<open>t - tau j\<close> of IRF sample \<open>j\<close> of a body.\<close>

definition lag :: "IrregularWaves \<Rightarrow> int \<Rightarrow> real \<Rightarrow> nat \<Rightarrow> real" where
  "lag st body time j = time - ex_irf_time_sampled st ! nat body ! j"

text \<open>
  What the convolution needs of the helper for a query strictly inside the window: the
  index of a sample that has a successor, the successor not before the query.
\<close>

definition brackets_below :: "(real \<Rightarrow> real list \<Rightarrow> int) \<Rightarrow> real list \<Rightarrow> real \<Rightarrow> bool" where
  "brackets_below lower_index ticks t \<longleftrightarrow>
     (if hd ticks < t \<and> t < last ticks
      then 0 \<le> lower_index t ticks \<and> lower_index t ticks + 1 < int (length ticks) \<and>
           t \<le> ticks ! nat (lower_index t ticks + 1)
      else True)"

text \<open>
  The helper returns a non-negative index for every query strictly inside the range of
  the ticks.
\<close>

definition nonnegative_inside :: "(real \<Rightarrow> real list \<Rightarrow> int) \<Rightarrow> real list \<Rightarrow> bool" where
  "nonnegative_inside lower_index ticks \<longleftrightarrow>
     (\<forall>x. hd ticks < x \<and> x < last ticks \<longrightarrow> 0 \<le> lower_index x ticks)"

section \<open>The free-surface mesh\<close>

text \<open>
  \<^verbatim>\<open>CreateFreeSurface3DPts\<close>: the writes \<open>surface[2 * i]\<close> and \<open>surface[2 * i + 1]\<close>
  are inside the \<open>2 * t_vec.size()\<close> points allocated; the read \<open>eta[i]\<close> is not
  checked by the source.
\<close>

definition CreateFreeSurface3DPts :: "real list \<Rightarrow> real list \<Rightarrow> error + (real \<times> real \<times> real) list" where
  "CreateFreeSurface3DPts eta t_vec =
     for_loop [0 ..< length t_vec]
       (\<lambda>i surface.
          let t = -1 * (t_vec ! i) in
          and_then (vec_at eta (int i)) (\<lambda>z.
            Inr (surface[2 * i := (t, -10.0, z), 2 * i + 1 := (t, 10.0, z)])))
       (replicate (length t_vec * 2) (0, 0, 0))"

text \<open>
  \<^verbatim>\<open>CreateFreeSurfaceTriangles\<close>: the bound \<open>eta_size / 2 - 1\<close> is computed in
  \<^verbatim>\<open>size_t\<close>, so it wraps around for \<open>eta_size < 2\<close>.
\<close>

definition CreateFreeSurfaceTriangles :: "64 word \<Rightarrow> (64 word \<times> 64 word \<times> 64 word) list" where
  "CreateFreeSurfaceTriangles eta_size =
     fold (\<lambda>i triangles. triangles @ [(2 * i, 2 * i + 1, 2 * i + 3), (2 * i, 2 * i + 3, 2 * i + 2)])
          (map word_of_nat [0 ..< unat (eta_size div 2 - 1)]) []"

text \<open>
  \<^verbatim>\<open>SetUpWaveMesh\<close> up to the call of the mesh writer: the points and the triangles it
  hands over.
\<close>

definition SetUpWaveMesh ::
  "IrregularWaves \<Rightarrow> error + ((real \<times> real \<times> real) list \<times> (64 word \<times> 64 word \<times> 64 word) list)" where
  "SetUpWaveMesh st =
     (let num_timesteps = static_cast_int (simulation_duration st / simulation_dt st) + 1 in
      and_then (LinSpaced num_timesteps 0 (simulation_duration st)) (\<lambda>time_index.
      and_then (CreateFreeSurface3DPts (free_surface_elevation_sampled st) time_index) (\<lambda>free_surface_3d_pts.
        Inr (free_surface_3d_pts, CreateFreeSurfaceTriangles (word_of_nat (length time_index))))))"

section \<open>Example states\<close>

text \<open>Four time steps of one second, with an elevation sample for each.\<close>

definition mesh_example :: IrregularWaves where
  "mesh_example =
     \<lparr> num_bodies = 1, simulation_dt = 1, simulation_duration = 3, ramp_duration = 0,
       seed = 0, water_depth = 10,
       ex_irf_sampled = [], ex_irf_time_sampled = [], ex_irf_width_sampled = [],
       spectrum_frequencies = [], spectral_densities = [],
       free_surface_time_sampled = [0, 1, 2, 3],
       free_surface_elevation_sampled = [5, 6, 7, 8] \<rparr>"


text \<open>
  The state \<^verbatim>\<open>RegularWave::Initialize\<close> leaves for \<open>two_body_regular_wave\<close>.
\<close>

definition two_body_initialized :: RegularWave where
  "two_body_initialized =
     two_body_regular_wave
       \<lparr> excitation_force_mag := [1, 1, 1, 1, 1, 1, 1, 1, 1, 1, 1, 1],
         excitation_force_phase := [0, 0, 0, 0, 0, 0, pi, pi, pi, pi, pi, pi] \<rparr>"

text \<open>
  One body whose IRF has the two samples \<open>tau = 0\<close> and \<open>tau = 1\<close> with every value 1 and
  the widths \<^verbatim>\<open>CalculateWidthIRF\<close> gives them, over an elevation history of three
  samples.
\<close>

definition convolution_example :: IrregularWaves where
  "convolution_example =
     \<lparr> num_bodies = 1, simulation_dt = 1, simulation_duration = 2, ramp_duration = 0,
       seed = 0, water_depth = 10,
       ex_irf_sampled = [[[1, 1, 1, 1, 1, 1], [1, 1, 1, 1, 1, 1]]],
       ex_irf_time_sampled = [[0, 1]],
       ex_irf_width_sampled = [[1 / 2, 1 / 2]],
       spectrum_frequencies = [], spectral_densities = [],
       free_surface_time_sampled = [0, 1, 2],
       free_surface_elevation_sampled = [5, 7, 9] \<rparr>"



section \<open>Counted loops\<close>

lemma for_loop_append:
  "for_loop (xs @ ys) body s =
     (case for_loop xs body s of Inl e \<Rightarrow> Inl e | Inr s' \<Rightarrow> for_loop ys body s')"
  by (induction xs arbitrary: s) (auto split: sum.splits)

lemma for_loop_upt_Suc:
  "for_loop [0 ..< Suc n] body s =
     (case for_loop [0 ..< n] body s of Inl e \<Rightarrow> Inl e | Inr s' \<Rightarrow> body n s')"
  by (simp add: for_loop_append split: sum.splits)

lemma for_loop_invariant:
  assumes "P 0 s"
    and "\<And>i t. i < n \<Longrightarrow> P i t \<Longrightarrow> \<exists>t'. body i t = Inr t' \<and> P (Suc i) t'"
  shows "\<exists>s'. for_loop [0 ..< n] body s = Inr s' \<and> P n s'"
  using assms(2)
proof (induction n)
  case 0
  then show ?case using assms(1) by simp
next
  case (Suc n)
  then obtain s' where s': "for_loop [0 ..< n] body s = Inr s'" "P n s'"
    by (metis less_Suc_eq)
  from Suc.prems[OF _ s'(2)] obtain t' where "body n s' = Inr t'" "P (Suc n) t'"
    by auto
  with s'(1) show ?case
    by (simp add: for_loop_append)
qed

lemma for_loop_fails_at:
  assumes "P 0 s" and "k < n"
    and "\<And>i t. i < k \<Longrightarrow> P i t \<Longrightarrow> \<exists>t'. body i t = Inr t' \<and> P (Suc i) t'"
    and "\<And>t. P k t \<Longrightarrow> body k t = Inl e"
  shows "for_loop [0 ..< n] body s = Inl e"
proof -
  obtain s' where s': "for_loop [0 ..< k] body s = Inr s'" "P k s'"
    using for_loop_invariant[of P s k body, OF assms(1) assms(3)] by blast
  have "[0 ..< n] = [0 ..< k] @ [k ..< n]"
    using assms(2) upt_add_eq_append[of 0 k "n - k"] by simp
  then have "[0 ..< n] = [0 ..< k] @ k # [Suc k ..< n]"
    using assms(2) by (simp add: upt_conv_Cons)
  then show ?thesis
    using s' assms(4)[OF s'(2)] by (simp add: for_loop_append)
qed

lemma accumulate_row:
  fixes eta :: "real list"
  assumes "length eta = n"
    and "\<And>j t. j < n \<Longrightarrow> length t = n \<Longrightarrow> body j t = Inr (t[j := t ! j + c j])"
  shows "for_loop [0 ..< n] body eta = Inr (map (\<lambda>j. eta ! j + c j) [0 ..< n])"
proof -
  let ?P = "\<lambda>m t. t = map (\<lambda>j. if j < m then eta ! j + c j else eta ! j) [0 ..< n]"
  have "\<exists>s'. for_loop [0 ..< n] body eta = Inr s' \<and> ?P n s'"
  proof (rule for_loop_invariant[where P = ?P])
    show "?P 0 eta"
      using assms(1) by (auto intro: nth_equalityI)
  next
    fix i t assume i: "i < n" and t: "?P i t"
    have len: "length t = n" using t by simp
    have "t[i := t ! i + c i] = map (\<lambda>j. if j < Suc i then eta ! j + c j else eta ! j) [0 ..< n]"
      using i t by (auto intro!: nth_equalityI simp: nth_list_update less_Suc_eq)
    then show "\<exists>t'. body i t = Inr t' \<and> ?P (Suc i) t'"
      using assms(2)[OF i len] by simp
  qed
  then show ?thesis by auto
qed

lemma accumulate_rows:
  fixes c :: "nat \<Rightarrow> nat \<Rightarrow> real"
  assumes "\<And>i t. i < m \<Longrightarrow> length t = n \<Longrightarrow> body i t = Inr (map (\<lambda>j. t ! j + c i j) [0 ..< n])"
  shows "for_loop [0 ..< m] body (replicate n (0::real)) = Inr (map (\<lambda>j. \<Sum>i<m. c i j) [0 ..< n])"
proof -
  let ?P = "\<lambda>k t. t = map (\<lambda>j. \<Sum>i<k. c i j) [0 ..< n]"
  have "\<exists>s'. for_loop [0 ..< m] body (replicate n (0::real)) = Inr s' \<and> ?P m s'"
  proof (rule for_loop_invariant[where P = ?P])
    show "?P 0 (replicate n (0::real))"
      by (auto intro: nth_equalityI)
  next
    fix i t assume i: "i < m" and t: "?P i t"
    have len: "length t = n" using t by simp
    have "map (\<lambda>j. t ! j + c i j) [0 ..< n] = map (\<lambda>j. \<Sum>i<Suc i. c i j) [0 ..< n]"
      using t by simp
    then show "\<exists>t'. body i t = Inr t' \<and> ?P (Suc i) t'"
      using assms[OF i len] by simp
  qed
  then show ?thesis by auto
qed

section \<open>Regular waves: the phase of the force\<close>

lemma Initialize_two_body: "Initialize two_body_regular_wave = Inr two_body_initialized"
  by (simp add: Initialize_def two_body_regular_wave_def two_body_initialized_def GetOmegaDelta_def
      GetExcitationMagInterp_def GetExcitationPhaseInterp_def tensor_at_def vec_at_def
      static_cast_int_def Let_def upt_conv_Cons eval_nat_numeral)

lemma GetForceAtTime_two_body:
  "RegularWave_GetForceAtTime two_body_initialized 0 = Inr [2, 2, 2, 2, 2, 2, 2, 2, 2, 2, 2, 2]"
  by (simp add: RegularWave_GetForceAtTime_def two_body_regular_wave_def two_body_initialized_def
      vec_at_def Let_def upt_conv_Cons eval_nat_numeral)

lemma formula_two_body: "regular_force_formula two_body_initialized 0 1 0 = - 2"
  by (simp add: regular_force_formula_def two_body_regular_wave_def two_body_initialized_def)

text \<open>
  Claim C3: entry \<open>6 b + d\<close> of \<^verbatim>\<open>RegularWave::GetForceAtTime(t)\<close> is
  \<open>magnitude[6 b + d] * amplitude * cos (omega * t + phase[6 b + d])\<close>, with the body's own
  magnitude and the body's own phase. The code reads the phase at \<open>rowEx\<close>, not at
  \<open>body_offset + rowEx\<close>: for two bodies initialised from tables whose phases are 0 for
  the first body and \<open>pi\<close> for the second, the force at \<open>t = 0\<close> on the second body is 2
  in every degree of freedom, where the formula of the claim gives -2 (entry 6, body 1,
  degree of freedom 0).
\<close>

theorem regular_force_uses_first_body_phase:
  "Initialize two_body_regular_wave = Inr two_body_initialized \<and>
   RegularWave_GetForceAtTime two_body_initialized 0 = Inr [2, 2, 2, 2, 2, 2, 2, 2, 2, 2, 2, 2] \<and>
   regular_force_formula two_body_initialized 0 1 0 = - 2"
  by (intro conjI Initialize_two_body GetForceAtTime_two_body formula_two_body)

section \<open>The wave spectra are nonnegative\<close>







section \<open>The free-surface mesh\<close>

text \<open>
  Claim C9: for an elevation series over \<open>N\<close> time samples the mesh export produces
  \<open>2 N\<close> points and, for every pair of consecutive time columns, two triangles: a strip
  of \<open>2 (N - 1)\<close> triangles. \<^verbatim>\<open>SetUpWaveMesh\<close> passes the number of time samples to
  \<^verbatim>\<open>CreateFreeSurfaceTriangles\<close>, which halves its argument: for four time samples
  the eight points are as claimed, but the strip has the two triangles of the first pair
  of columns only, not six.
\<close>

theorem mesh_strip_stops_at_half_the_columns:
  "SetUpWaveMesh mesh_example =
     Inr ([(0, - 10, 5), (0, 10, 5), (- 1, - 10, 6), (- 1, 10, 6),
           (- 2, - 10, 7), (- 2, 10, 7), (- 3, - 10, 8), (- 3, 10, 8)],
          [(0, 1, 3), (0, 3, 2)])"
  by code_simp

section \<open>The excitation convolution: which values are summed\<close>

lemma convolution_example_widths:
  "width_array_of (ex_irf_time_sampled convolution_example ! 0) = ex_irf_width_sampled convolution_example ! 0"
  by (simp add: width_array_of_def convolution_example_def upt_conv_Cons)

lemma convolution_example_code:
  "ExcitationConvolution get_lower_index indet convolution_example 0 0 2 = Inr (3 / 2)"
  by (simp add: ExcitationConvolution_def start_index_def convolution_example_def convolution_pass_def
      vec_at_def mat_at_def Let_def upt_conv_Cons)

lemma convolution_example_formula: "convolution_formula convolution_example 0 0 2 = 8"
  by (simp add: convolution_formula_def convolution_example_def elevation_at_def get_lower_index_def
      Let_def lessThan_Suc numeral_2_eq_2)

lemma convolution_example_interior_code:
  "ExcitationConvolution get_lower_index indet convolution_example 0 0 (3 / 2) =
     Inr (indet 0 * (1 / 2) + indet 1 * (1 / 2))"
  by (simp add: ExcitationConvolution_def start_index_def get_lower_index_def convolution_example_def
      convolution_pass_def vec_at_def mat_at_def Let_def upt_conv_Cons)

lemma convolution_example_interior_formula: "convolution_formula convolution_example 0 0 (3 / 2) = 7"
  by (simp add: convolution_formula_def convolution_example_def elevation_at_def get_lower_index_def
      Let_def lessThan_Suc numeral_2_eq_2)

text \<open>
  Claim C1: for a query whose lags all lie in the history's time range,
  \<^verbatim>\<open>ExcitationConvolution\<close> takes each \<open>eta (t - tau j)\<close> from elevation values (the
  stored elevation at a sample time, the interpolated elevation between two sample
  times) and returns the sum of \<open>IRF[dof, j] * eta (t - tau j) * width j\<close>. In the code
  the two exact-match branches assign a sample time to \<open>eta_val\<close>: for the history
  \<open>(0, 5), (1, 7), (2, 9)\<close> and the IRF samples \<open>tau = 0, 1\<close> of value 1 and width 1/2,
  the query \<open>t = 2\<close> meets the samples at times 2 and 1 and returns
  \<open>2 * 1/2 + 1 * 1/2 = 3/2\<close>, where the elevations give \<open>9 * 1/2 + 7 * 1/2 = 8\<close>. The
  query \<open>t = 3/2\<close> falls between samples with both lags: the interpolated elevations 8
  and 6 (which give 7) go to the inner variable, and the sum is taken over whatever the
  unassigned outer variable holds.
\<close>

theorem excitation_convolution_sums_sample_times:
  "ExcitationConvolution get_lower_index indet convolution_example 0 0 2 = Inr (3 / 2) \<and>
   convolution_formula convolution_example 0 0 2 = 8 \<and>
   ExcitationConvolution get_lower_index indet convolution_example 0 0 (3 / 2) =
     Inr (indet 0 * (1 / 2) + indet 1 * (1 / 2)) \<and>
   convolution_formula convolution_example 0 0 (3 / 2) = 7"
  by (intro conjI convolution_example_code convolution_example_formula
      convolution_example_interior_code convolution_example_interior_formula)

section \<open>The dispersion solver iterates Newton's update\<close>

declare wave_number_loop.simps [simp del]







section \<open>The synthesis is a superposition with seeded phases\<close>

lemma length_draw_phases: "length (draw_phases d n rng) = n"
  by (induction n arbitrary: rng) (auto simp: Let_def split_beta)

lemma FreeSurfaceElevation_superposition:
  assumes "freqs \<noteq> []" and "length dens \<le> length freqs"
  shows "FreeSurfaceElevation mt uniform_dist freqs dens time_index depth sd =
         Inr (map (\<lambda>j. \<Sum>i<length dens.
                      sqrt (2 * dens ! i * (last freqs / real (length freqs))) *
                      cos (time_index ! j * (2 * pi * freqs ! i) +
                           draw_phases uniform_dist (length freqs) (mt sd) ! i))
                  [0 ..< length time_index])"
proof -
  let ?c = "\<lambda>i j. sqrt (2 * dens ! i * (last freqs / real (length freqs))) *
                   cos (time_index ! j * (2 * pi * freqs ! i) +
                        draw_phases uniform_dist (length freqs) (mt sd) ! i)"
  have last: "vec_at freqs (int (length freqs) - 1) = Inr (last freqs)"
    using assms(1) by (cases freqs rule: rev_cases) (auto simp: vec_at_def nat_diff_distrib nth_append)
  have zero: "(0.0 :: real) = 0"
    by simp
  show ?thesis
    using assms(2)
    unfolding FreeSurfaceElevation_def last and_then.simps Let_def zero
    apply (intro accumulate_rows[where c = ?c] accumulate_row)
     apply assumption
    apply (simp add: vec_at_def length_draw_phases)
    done
qed

text \<open>
  Claim C7: two calls of \<^verbatim>\<open>FreeSurfaceElevation\<close> with the same frequencies, spectral
  densities, time grid, water depth and seed produce the same elevation sequence, and the
  amplitude envelope \<open>sqrt A\<^sub>i\<close> with \<open>A\<^sub>i = 2 * density\<^sub>i * delta_f\<close> and
  \<open>delta_f = lastFreq / N\<close> does not depend on the seed: only the drawn phases do.

  With a frequency vector that is not empty and at least as long as the densities, the
  call returns the superposition \<open>eta\<^sub>j = \<Sum>\<^sub>i sqrt (2 * density\<^sub>i * lastFreq / N) * cos (t\<^sub>j * 2 pi f\<^sub>i + phase\<^sub>i)\<close>,
  in which the seed enters through the phases drawn from the freshly seeded generator
  and nowhere else (the water depth does not enter at all: the wave numbers are computed
  and not used).
\<close>

theorem free_surface_elevation_deterministic:
  assumes "freqs \<noteq> []" and "length dens \<le> length freqs"
  shows "FreeSurfaceElevation mt uniform_dist freqs dens time_index depth sd =
           Inr (map (\<lambda>j. \<Sum>i<length dens.
                        sqrt (2 * dens ! i * (last freqs / real (length freqs))) *
                        cos (time_index ! j * (2 * pi * freqs ! i) +
                             draw_phases uniform_dist (length freqs) (mt sd) ! i))
                    [0 ..< length time_index]) \<and>
         (freqs' = freqs \<and> dens' = dens \<and> time_index' = time_index \<and> depth' = depth \<and> sd' = sd \<longrightarrow>
            FreeSurfaceElevation mt uniform_dist freqs' dens' time_index' depth' sd' =
            FreeSurfaceElevation mt uniform_dist freqs dens time_index depth sd)"
  using FreeSurfaceElevation_superposition[OF assms] by simp

theorem free_surface_elevation_deterministic_witness:
  "[1 / 2 :: real] \<noteq> [] \<and> length [2 :: real] \<le> length [1 / 2 :: real] \<and>
   FreeSurfaceElevation (\<lambda>s :: int. s) (\<lambda>g. (0, g + 1)) [1 / 2] [2] [0, 1] 10 7 = Inr [sqrt 2, - sqrt 2]"
  using free_surface_elevation_deterministic[where freqs = "[1 / 2]" and dens = "[2]"
      and mt = "\<lambda>s :: int. s" and uniform_dist = "\<lambda>g. (0, g + 1)" and time_index = "[0, 1]"
      and depth = 10 and sd = 7]
  by (simp add: upt_conv_Cons)

section \<open>The excitation convolution: the window check\<close>

declare walk_back.simps [simp del]

lemma walk_back_in_window:
  assumes "0 \<le> idx" and "idx < int (length ts)" and "ts ! 0 \<le> t"
  shows "\<exists>i. walk_back ts t idx = Inr i \<and> 0 \<le> i \<and> i \<le> idx \<and> ts ! nat i \<le> t \<and>
             (i = idx \<or> t < ts ! nat (i + 1))"
  using assms
proof (induction ts t idx rule: walk_back.induct)
  case (1 ts t idx)
  show ?case
  proof (cases "ts ! nat idx > t")
    case False
    then show ?thesis
      using "1.prems" by (subst walk_back.simps) auto
  next
    case True
    then have pos: "0 < idx"
      using "1.prems" by (cases "idx = 0") auto
    have "\<exists>i. walk_back ts t (idx - 1) = Inr i \<and> 0 \<le> i \<and> i \<le> idx - 1 \<and> ts ! nat i \<le> t \<and>
             (i = idx - 1 \<or> t < ts ! nat (i + 1))"
      using "1.IH" "1.prems" True pos by auto
    then obtain i where i: "walk_back ts t (idx - 1) = Inr i" "0 \<le> i" "i \<le> idx - 1" "ts ! nat i \<le> t"
      "i = idx - 1 \<or> t < ts ! nat (i + 1)"
      by blast
    have "walk_back ts t idx = Inr i"
      using "1.prems" True i(1) by (subst walk_back.simps) auto
    moreover have "i = idx \<or> t < ts ! nat (i + 1)"
      using i(5) True by auto
    ultimately show ?thesis
      using i by auto
  qed
qed

lemma walk_back_not_below_zero:
  assumes "0 \<le> idx" and "ts ! 0 \<le> t"
  shows "walk_back ts t idx \<noteq> Inl CursorBelowZero \<and> (\<forall>i. walk_back ts t idx = Inr i \<longrightarrow> 0 \<le> i)"
  using assms
proof (induction ts t idx rule: walk_back.induct)
  case (1 ts t idx)
  show ?case
  proof (cases "int (length ts) \<le> idx")
    case True
    then show ?thesis
      using "1.prems" by (subst walk_back.simps, subst (2) walk_back.simps) auto
  next
    case inside: False
    show ?thesis
    proof (cases "ts ! nat idx > t")
      case False
      then show ?thesis
        using "1.prems" inside by (subst walk_back.simps, subst (2) walk_back.simps) auto
    next
      case True
      then have pos: "0 < idx"
        using "1.prems" by (cases "idx = 0") auto
      have eq: "walk_back ts t idx = walk_back ts t (idx - 1)"
        using "1.prems" True inside by (subst walk_back.simps) auto
      show ?thesis
        unfolding eq using "1.IH" "1.prems" True inside pos by auto
    qed
  qed
qed

lemma vec_at_inside: "0 \<le> i \<Longrightarrow> i < int (length xs) \<Longrightarrow> vec_at xs i = Inr (xs ! nat i)"
  by (simp add: vec_at_def)

lemma pass_out_of_window:
  assumes "\<not> (tmin \<le> time - irf_time ! j \<and> time - irf_time ! j \<le> tmax)"
  shows "convolution_pass indet st irf_time irf_val irf_width tmin tmax dof time j s = Inl OutOfWindow"
  using assms by (cases s) (auto simp add: convolution_pass_def Let_def)

lemma pass_in_window:
  fixes st :: IrregularWaves
  defines "ts \<equiv> free_surface_time_sampled st"
  assumes len: "length ts \<le> length (free_surface_elevation_sampled st)"
    and j: "j < length irf_val" "j < length irf_width" "0 \<le> dof" "dof < int (length (irf_val ! j))"
    and win: "ts ! 0 \<le> time - irf_time ! j" "time - irf_time ! j \<le> tmax"
    and idx: "0 \<le> idx" "idx + 1 < int (length ts)" "time - irf_time ! j \<le> ts ! nat (idx + 1)"
  shows "\<exists>idx' f'. convolution_pass indet st irf_time irf_val irf_width (ts ! 0) tmax dof time j (idx, f) =
            Inr (idx', f') \<and>
          0 \<le> idx' \<and> idx' + 1 < int (length ts) \<and> time - irf_time ! j \<le> ts ! nat (idx' + 1)"
proof -
  let ?t = "time - irf_time ! j"
  obtain i where i: "walk_back ts ?t idx = Inr i" "0 \<le> i" "i \<le> idx" "ts ! nat i \<le> ?t"
      "i = idx \<or> ?t < ts ! nat (i + 1)"
    using walk_back_in_window[of idx ts ?t] idx win by auto
  have up: "?t \<le> ts ! nat (i + 1)"
    using i(5) idx(3) by auto
  have r1: "vec_at ts i = Inr (ts ! nat i)" "vec_at ts (i + 1) = Inr (ts ! nat (i + 1))"
    using i idx by (auto intro: vec_at_inside)
  have r2: "vec_at (free_surface_elevation_sampled st) i = Inr (free_surface_elevation_sampled st ! nat i)"
      "vec_at (free_surface_elevation_sampled st) (i + 1) = Inr (free_surface_elevation_sampled st ! nat (i + 1))"
    using i idx len by (auto intro: vec_at_inside)
  have r3: "mat_at irf_val dof (int j) = Inr (irf_val ! j ! nat dof)" "vec_at irf_width (int j) = Inr (irf_width ! j)"
    using j by (auto simp: mat_at_def vec_at_def)
  have "\<exists>f'. convolution_pass indet st irf_time irf_val irf_width (ts ! 0) tmax dof time j (idx, f) = Inr (i, f')"
    using win i(4) up
    by (simp add: convolution_pass_def Let_def i(1) r1 r2 r3 ts_def[symmetric])
  then show ?thesis
    using i idx up by auto
qed

lemma vec_at_last: "xs \<noteq> [] \<Longrightarrow> vec_at xs (int (length xs) - 1) = Inr (last xs)"
  by (cases xs rule: rev_cases) (auto simp: vec_at_def nat_diff_distrib nth_append)

lemma ExcitationConvolution_unfold:
  assumes "0 \<le> body" "body < int (length (ex_irf_time_sampled st))"
    "body < int (length (ex_irf_sampled st))" "body < int (length (ex_irf_width_sampled st))"
    "ex_irf_time_sampled st ! nat body \<noteq> []" "free_surface_time_sampled st \<noteq> []"
  shows "ExcitationConvolution lower_index indet st body dof time =
         and_then
           (for_loop [0 ..< length (ex_irf_time_sampled st ! nat body)]
              (convolution_pass indet st (ex_irf_time_sampled st ! nat body) (ex_irf_sampled st ! nat body)
                 (ex_irf_width_sampled st ! nat body) (free_surface_time_sampled st ! 0)
                 (last (free_surface_time_sampled st)) dof time)
              (start_index lower_index (free_surface_time_sampled st) (free_surface_time_sampled st ! 0)
                 (last (free_surface_time_sampled st)) (time - ex_irf_time_sampled st ! nat body ! 0), 0))
           (\<lambda>(idx, f_ex). Inr f_ex)"
proof -
  have a: "vec_at (free_surface_time_sampled st) 0 = Inr (free_surface_time_sampled st ! 0)"
    using assms(6) by (simp add: vec_at_def)
  have b: "vec_at (free_surface_time_sampled st) (int (length (free_surface_time_sampled st)) - 1) =
           Inr (last (free_surface_time_sampled st))"
    using assms(6) by (rule vec_at_last)
  have c: "vec_at (ex_irf_time_sampled st ! nat body) 0 = Inr (ex_irf_time_sampled st ! nat body ! 0)"
    using assms(5) by (simp add: vec_at_def)
  show ?thesis
    using assms(1-4)
    by (simp add: ExcitationConvolution_def vec_at_inside a b c Let_def)
qed

lemma start_index_bracket:
  assumes "2 \<le> length ts" "sorted ts" "brackets_below lower_index ts t" "ts ! 0 \<le> t" "t \<le> last ts"
  shows "0 \<le> start_index lower_index ts (ts ! 0) (last ts) t \<and> start_index lower_index ts (ts ! 0) (last ts) t + 1 < int (length ts) \<and>
         t \<le> ts ! nat (start_index lower_index ts (ts ! 0) (last ts) t + 1)"
proof -
  have ne: "ts \<noteq> []" using assms(1) by auto
  have hd: "hd ts = ts ! 0" using ne by (simp add: hd_conv_nth)
  consider "t \<le> ts ! 0" | "\<not> t \<le> ts ! 0" "t \<ge> last ts" | "\<not> t \<le> ts ! 0" "\<not> t \<ge> last ts"
    by blast
  then show ?thesis
  proof cases
    case 1
    have "ts ! 0 \<le> ts ! 1"
      using assms(1,2) by (simp add: sorted_iff_nth_mono)
    then show ?thesis
      using 1 assms(1) by (simp add: start_index_def)
  next
    case 2
    have "nat (int (length ts) - 2 + 1) = length ts - 1"
      using assms(1) by auto
    then show ?thesis
      using 2 assms(1,5) ne by (simp add: start_index_def last_conv_nth)
  next
    case 3
    then show ?thesis
      using assms(3) hd by (simp add: start_index_def brackets_below_def)
  qed
qed

lemma convolution_loop_in_window:
  fixes st :: IrregularWaves and body :: int
  defines "ts \<equiv> free_surface_time_sampled st"
    and "irf_time \<equiv> ex_irf_time_sampled st ! nat body"
    and "irf_val \<equiv> ex_irf_sampled st ! nat body"
    and "irf_width \<equiv> ex_irf_width_sampled st ! nat body"
  assumes ready: "convolution_ready st body dof"
    and lower: "brackets_below lower_index ts (lag st body time 0)"
    and k: "k \<le> length irf_time"
    and win: "\<forall>j<k. in_window st (lag st body time j)"
  shows "\<exists>idx f. for_loop [0 ..< k]
                  (convolution_pass indet st irf_time irf_val irf_width (ts ! 0) (last ts) dof time)
                  (start_index lower_index ts (ts ! 0) (last ts) (time - irf_time ! 0), 0) = Inr (idx, f)"
proof (cases "k = 0")
  case True
  then show ?thesis by simp
next
  case False
  have ts2: "2 \<le> length ts" and sorted_ts: "sorted ts"
    and len: "length ts \<le> length (free_surface_elevation_sampled st)"
    and sorted_irf: "sorted irf_time"
    and lens: "length irf_time \<le> length irf_width" "length irf_time \<le> length irf_val"
    and dof: "0 \<le> dof" "list_all (\<lambda>column. dof < int (length column)) irf_val"
    using ready by (simp_all add: convolution_ready_def ts_def irf_time_def irf_val_def irf_width_def)
  have ne: "ts \<noteq> []" using ts2 by auto
  have hd: "hd ts = ts ! 0" using ne by (simp add: hd_conv_nth)
  have lag_eq: "lag st body time j = time - irf_time ! j" for j
    by (simp add: lag_def irf_time_def)
  have inw: "ts ! 0 \<le> time - irf_time ! j \<and> time - irf_time ! j \<le> last ts" if "j < k" for j
    using win that hd by (simp add: in_window_def lag_eq ts_def)
  let ?P = "\<lambda>j s. 0 \<le> fst s \<and> fst s + 1 < int (length ts) \<and>
                 (j < k \<longrightarrow> time - irf_time ! j \<le> ts ! nat (fst s + 1))"
  let ?body = "convolution_pass indet st irf_time irf_val irf_width (ts ! 0) (last ts) dof time"
  let ?s0 = "(start_index lower_index ts (ts ! 0) (last ts) (time - irf_time ! 0), 0 :: real)"
  have "\<exists>s'. for_loop [0 ..< k] ?body ?s0 = Inr s' \<and> ?P k s'"
  proof (rule for_loop_invariant[where P = ?P])
    show "?P 0 ?s0"
      using start_index_bracket[OF ts2 sorted_ts, of lower_index "time - irf_time ! 0"]
        lower inw[of 0] False
      by (simp add: lag_eq)
  next
    fix j and s :: "int \<times> real" assume j: "j < k" and P: "?P j s"
    obtain idx f where s: "s = (idx, f)" by (cases s)
    have jn: "j < length irf_time" using j k by simp
    have col: "dof < int (length (irf_val ! j))"
      using dof(2) jn lens(2) by (simp add: list_all_length)
    obtain idx' f' where r: "?body j (idx, f) = Inr (idx', f')" "0 \<le> idx'" "idx' + 1 < int (length ts)"
        "time - irf_time ! j \<le> ts ! nat (idx' + 1)"
      using pass_in_window[where st = st and irf_val = irf_val and j = j and irf_width = irf_width
          and dof = dof and time = time and irf_time = irf_time and tmax = "last ts" and idx = idx
          and indet = indet and f = f]
        len jn lens dof(1) col inw[OF j] P j
      unfolding s ts_def[symmetric] by auto
    have "time - irf_time ! Suc j \<le> time - irf_time ! j" if "Suc j < k"
      using sorted_irf that k by (simp add: sorted_iff_nth_mono)
    then have "?P (Suc j) (idx', f')"
      using r by auto
    then show "\<exists>t'. ?body j s = Inr t' \<and> ?P (Suc j) t'"
      using r(1) s by blast
  qed
  then show ?thesis
    by (metis prod.collapse)
qed

lemma for_loop_fails_somewhere:
  assumes "i \<in> set xs" and "\<And>s. \<exists>e. body i s = Inl e"
  shows "\<exists>e. for_loop xs body s = Inl e"
  using assms(1)
proof (induction xs arbitrary: s)
  case Nil
  then show ?case by simp
next
  case (Cons x xs)
  show ?case
  proof (cases "body x s")
    case (Inl e)
    then show ?thesis by simp
  next
    case (Inr s')
    have "i \<in> set xs"
      using Cons.prems Inr assms(2)[of s] by auto
    then show ?thesis
      using Cons.IH[of s'] Inr by simp
  qed
qed

lemma GetForceAtTime_fails:
  assumes "ExcitationConvolution lower_index indet st body dof time = Inl e"
    and "0 \<le> body" "body < int (num_bodies st)" "0 \<le> dof" "dof < 6"
  shows "\<exists>e'. IrregularWaves_GetForceAtTime lower_index indet st time = Inl e'"
  unfolding IrregularWaves_GetForceAtTime_def
proof (rule for_loop_fails_somewhere[where i = "nat body"])
  show "nat body \<in> set [0 ..< num_bodies st]"
    using assms(2,3) by simp
next
  fix f :: "real list"
  show "\<exists>e'. for_loop [0 ..< 6]
          (\<lambda>dof f. and_then (ExcitationConvolution lower_index indet st (int (nat body)) (int dof) time)
             (\<lambda>f_dof. let b_offset = nat body * 6 in Inr (f[b_offset + dof := f_dof]))) f = Inl e'"
  proof (rule for_loop_fails_somewhere[where i = "nat dof"])
    show "nat dof \<in> set [0 ..< 6]"
      using assms(4,5) by simp
  next
    fix g :: "real list"
    show "\<exists>e'. and_then (ExcitationConvolution lower_index indet st (int (nat body)) (int (nat dof)) time)
             (\<lambda>f_dof. let b_offset = nat body * 6 in Inr (g[b_offset + nat dof := f_dof])) = Inl e'"
      using assms(1,2,4) by simp
  qed
qed

text \<open>
  Claim C2: if a lag \<open>t - tau j\<close> of a convolution query falls outside the window of the
  history, \<^verbatim>\<open>ExcitationConvolution\<close> raises the out-of-bounds error and returns no
  force for that body and degree of freedom, so that \<^verbatim>\<open>GetForceAtTime\<close> returns no
  force vector either; for a query whose lags all lie inside the window the error is
  not raised, and a force is returned.

  The tables are as the specification requires them (\<open>convolution_ready\<close>), and the
  helper \<^verbatim>\<open>get_lower_index\<close> is any function that brackets the first lag from below
  when that lag is strictly inside the window.
\<close>

theorem convolution_raises_outside_window:
  assumes ready: "convolution_ready st body dof"
    and lower: "brackets_below lower_index (free_surface_time_sampled st) (lag st body time 0)"
  shows "((\<exists>j<length (ex_irf_time_sampled st ! nat body). \<not> in_window st (lag st body time j)) \<longrightarrow>
            ExcitationConvolution lower_index indet st body dof time = Inl OutOfWindow \<and>
            (body < int (num_bodies st) \<and> dof < 6 \<longrightarrow>
               (\<exists>e. IrregularWaves_GetForceAtTime lower_index indet st time = Inl e))) \<and>
         ((\<forall>j<length (ex_irf_time_sampled st ! nat body). in_window st (lag st body time j)) \<longrightarrow>
            (\<exists>f. ExcitationConvolution lower_index indet st body dof time = Inr f))"
proof -
  let ?ts = "free_surface_time_sampled st"
  let ?irf = "ex_irf_time_sampled st ! nat body"
  let ?body = "convolution_pass indet st ?irf (ex_irf_sampled st ! nat body)
                 (ex_irf_width_sampled st ! nat body) (?ts ! 0) (last ?ts) dof time"
  let ?s0 = "(start_index lower_index ?ts (?ts ! 0) (last ?ts) (time - ?irf ! 0), 0 :: real)"
  have ne: "?ts \<noteq> []" "?irf \<noteq> []" and b: "0 \<le> body" "0 \<le> dof"
    using ready by (auto simp: convolution_ready_def)
  have unfold: "ExcitationConvolution lower_index indet st body dof time =
                and_then (for_loop [0 ..< length ?irf] ?body ?s0) (\<lambda>(idx, f_ex). Inr f_ex)"
    using ready by (intro ExcitationConvolution_unfold) (auto simp: convolution_ready_def)
  have hd: "hd ?ts = ?ts ! 0"
    using ne by (simp add: hd_conv_nth)
  have inside: "\<exists>f. ExcitationConvolution lower_index indet st body dof time = Inr f"
    if w: "\<forall>j<length ?irf. in_window st (lag st body time j)"
  proof -
    obtain idx f where "for_loop [0 ..< length ?irf] ?body ?s0 = Inr (idx, f)"
      using convolution_loop_in_window[OF ready lower le_refl w, of indet] by blast
    then show ?thesis
      unfolding unfold by simp
  qed
  have outside: "ExcitationConvolution lower_index indet st body dof time = Inl OutOfWindow"
    if w: "\<exists>j<length ?irf. \<not> in_window st (lag st body time j)"
  proof -
    define k where "k = (LEAST j. j < length ?irf \<and> \<not> in_window st (lag st body time j))"
    have k: "k < length ?irf" "\<not> in_window st (lag st body time k)"
      using LeastI_ex[OF w] by (simp_all add: k_def)
    have before: "\<forall>j<k. in_window st (lag st body time j)"
      using not_less_Least[of _ "\<lambda>j. j < length ?irf \<and> \<not> in_window st (lag st body time j)"] k(1)
      unfolding k_def[symmetric] by (metis less_trans)
    obtain idx f where pre: "for_loop [0 ..< k] ?body ?s0 = Inr (idx, f)"
      using convolution_loop_in_window[OF ready lower less_imp_le[OF k(1)] before, of indet] by blast
    have "\<not> (?ts ! 0 \<le> time - ?irf ! k \<and> time - ?irf ! k \<le> last ?ts)"
      using k(2) hd by (simp add: in_window_def lag_def)
    then have fail: "?body k (idx, f) = Inl OutOfWindow"
      by (rule pass_out_of_window)
    have "[0 ..< length ?irf] = [0 ..< k] @ [k ..< length ?irf]"
      using k(1) upt_add_eq_append[of 0 k "length ?irf - k"] by simp
    then have "[0 ..< length ?irf] = [0 ..< k] @ k # [Suc k ..< length ?irf]"
      using k(1) by (simp add: upt_conv_Cons)
    then have "for_loop [0 ..< length ?irf] ?body ?s0 = Inl OutOfWindow"
      using pre fail by (simp add: for_loop_append)
    then show ?thesis
      unfolding unfold by simp
  qed
  show ?thesis
    using inside outside GetForceAtTime_fails[OF _ b(1) _ b(2), of lower_index indet st time OutOfWindow]
    by blast
qed

theorem convolution_raises_outside_window_witness:
  "convolution_ready convolution_example 0 0 \<and>
   brackets_below get_lower_index (free_surface_time_sampled convolution_example)
     (lag convolution_example 0 (1 / 2) 0) \<and>
   \<not> in_window convolution_example (lag convolution_example 0 (1 / 2) 1) \<and>
   ExcitationConvolution get_lower_index (\<lambda>j. 0) convolution_example 0 0 (1 / 2) = Inl OutOfWindow \<and>
   brackets_below get_lower_index (free_surface_time_sampled convolution_example)
     (lag convolution_example 0 2 0) \<and>
   in_window convolution_example (lag convolution_example 0 2 0) \<and>
   in_window convolution_example (lag convolution_example 0 2 1) \<and>
   (\<exists>f. ExcitationConvolution get_lower_index (\<lambda>j. 0) convolution_example 0 0 2 = Inr f)"
proof -
  have r: "convolution_ready convolution_example 0 0"
    by (simp add: convolution_ready_def convolution_example_def)
  have b1: "brackets_below get_lower_index (free_surface_time_sampled convolution_example)
              (lag convolution_example 0 (1 / 2) 0)"
    and b2: "brackets_below get_lower_index (free_surface_time_sampled convolution_example)
              (lag convolution_example 0 2 0)"
    by (simp_all add: brackets_below_def get_lower_index_def lag_def convolution_example_def)
  have out: "(1 :: nat) < length (ex_irf_time_sampled convolution_example ! nat 0)"
      "\<not> in_window convolution_example (lag convolution_example 0 (1 / 2) 1)"
    by (simp_all add: in_window_def lag_def convolution_example_def)
  have ins: "in_window convolution_example (lag convolution_example 0 2 0)"
      "in_window convolution_example (lag convolution_example 0 2 1)"
    by (simp_all add: in_window_def lag_def convolution_example_def)
  have all: "\<forall>j<length (ex_irf_time_sampled convolution_example ! nat 0).
               in_window convolution_example (lag convolution_example 0 2 j)"
    using ins by (simp add: convolution_example_def less_Suc_eq)
  show ?thesis
    using convolution_raises_outside_window[OF r b1, of "\<lambda>j. 0"]
      convolution_raises_outside_window[OF r b2, of "\<lambda>j. 0"] r b1 b2 out ins all
    by blast
qed

section \<open>The excitation convolution: the cursor stays inside the history\<close>

lemma and_then_avoids:
  assumes "m \<noteq> Inl e" and "\<And>x. m = Inr x \<Longrightarrow> f x \<noteq> Inl e"
  shows "and_then m f \<noteq> Inl e"
  using assms by (cases m) auto

lemma vec_at_no_cursor_fault: "vec_at xs i \<noteq> Inl CursorBelowZero"
  by (simp add: vec_at_def)

lemma mat_at_no_cursor_fault: "mat_at m i j \<noteq> Inl CursorBelowZero"
  unfolding mat_at_def by (intro and_then_avoids vec_at_no_cursor_fault)

lemma for_loop_avoids:
  assumes "P 0 s"
    and "\<And>i t. i < n \<Longrightarrow> P i t \<Longrightarrow> body i t \<noteq> Inl e \<and> (\<forall>t'. body i t = Inr t' \<longrightarrow> P (Suc i) t')"
  shows "for_loop [0 ..< n] body s \<noteq> Inl e \<and> (\<forall>s'. for_loop [0 ..< n] body s = Inr s' \<longrightarrow> P n s')"
  using assms(2)
proof (induction n)
  case 0
  then show ?case using assms(1) by simp
next
  case (Suc n)
  have IH: "for_loop [0 ..< n] body s \<noteq> Inl e" "\<And>s'. for_loop [0 ..< n] body s = Inr s' \<Longrightarrow> P n s'"
    using Suc.IH Suc.prems by (simp_all add: less_Suc_eq)
  show ?case
  proof (cases "for_loop [0 ..< n] body s")
    case (Inl e')
    then show ?thesis using IH(1) by (simp add: for_loop_append)
  next
    case (Inr s')
    then show ?thesis
      using Suc.prems[of n s'] IH(2)[of s'] by (auto simp add: for_loop_append split: sum.splits)
  qed
qed

lemma pass_avoids_cursor_fault:
  assumes "0 \<le> idx \<or> \<not> (free_surface_time_sampled st ! 0 \<le> time - irf_time ! j \<and> time - irf_time ! j \<le> tmax)"
  shows "convolution_pass indet st irf_time irf_val irf_width (free_surface_time_sampled st ! 0) tmax dof time j (idx, f)
           \<noteq> Inl CursorBelowZero \<and>
         (\<forall>s'. convolution_pass indet st irf_time irf_val irf_width (free_surface_time_sampled st ! 0) tmax dof time j (idx, f)
                 = Inr s' \<longrightarrow> 0 \<le> fst s')"
proof (cases "free_surface_time_sampled st ! 0 \<le> time - irf_time ! j \<and> time - irf_time ! j \<le> tmax")
  case False
  then show ?thesis
    by (simp add: pass_out_of_window)
next
  case True
  then have idx: "0 \<le> idx" using assms by blast
  let ?t = "time - irf_time ! j"
  have wb: "walk_back (free_surface_time_sampled st) ?t idx \<noteq> Inl CursorBelowZero"
    "\<And>i. walk_back (free_surface_time_sampled st) ?t idx = Inr i \<Longrightarrow> 0 \<le> i"
    using walk_back_not_below_zero[OF idx, of "free_surface_time_sampled st" ?t] True by auto
  show ?thesis
  proof (cases "walk_back (free_surface_time_sampled st) ?t idx")
    case (Inl e)
    then show ?thesis
      using wb(1) True by (simp add: convolution_pass_def Let_def)
  next
    case (Inr i)
    have i: "0 \<le> i" using wb(2)[OF Inr] .
    show ?thesis
      using True i
      by (auto simp add: convolution_pass_def Let_def Inr vec_at_def mat_at_def split: if_splits)
  qed
qed

lemma start_index_safe:
  assumes "ts \<noteq> []" and "nonnegative_inside lower_index ts"
  shows "0 \<le> start_index lower_index ts (ts ! 0) (last ts) t \<or> \<not> (ts ! 0 \<le> t \<and> t \<le> last ts)"
proof -
  have hd: "hd ts = ts ! 0"
    using assms(1) by (simp add: hd_conv_nth)
  consider "t \<le> ts ! 0" | "\<not> t \<le> ts ! 0" "last ts < t" | "\<not> t \<le> ts ! 0" "t = last ts"
    | "ts ! 0 < t" "t < last ts"
    by fastforce
  then show ?thesis
  proof cases
    case 1
    then show ?thesis by (simp add: start_index_def)
  next
    case 2
    then show ?thesis by simp
  next
    case 3
    then have "ts ! 0 \<noteq> last ts" by auto
    then have "length ts \<noteq> 1"
      using assms(1) by (auto simp: last_conv_nth)
    moreover have "0 < length ts"
      using assms(1) by simp
    ultimately have "2 \<le> length ts"
      by linarith
    then show ?thesis
      using 3 by (simp add: start_index_def)
  next
    case 4
    then show ?thesis
      using assms(2) hd by (simp add: start_index_def nonnegative_inside_def)
  qed
qed

lemma ExcitationConvolution_avoids_cursor_fault:
  assumes "nonnegative_inside lower_index (free_surface_time_sampled st)"
  shows "ExcitationConvolution lower_index indet st body dof time \<noteq> Inl CursorBelowZero"
  unfolding ExcitationConvolution_def
proof (intro and_then_avoids vec_at_no_cursor_fault)
  fix irf_time :: "real list" and irf_val :: "real list list" and irf_width :: "real list"
    and tmin tmax tau0 :: real
  assume tmin: "vec_at (free_surface_time_sampled st) 0 = Inr tmin"
    and tmax: "vec_at (free_surface_time_sampled st) (int (length (free_surface_time_sampled st)) - 1) = Inr tmax"
    and tau0: "vec_at irf_time 0 = Inr tau0"
  let ?ts = "free_surface_time_sampled st"
  have ne: "?ts \<noteq> []"
    using tmin by (auto simp: vec_at_def split: if_splits)
  have tmin': "tmin = ?ts ! 0"
    using tmin by (auto simp: vec_at_def split: if_splits)
  have tmax': "tmax = last ?ts"
    using tmax vec_at_last[OF ne] by simp
  have tau0': "tau0 = irf_time ! 0"
    using tau0 by (auto simp: vec_at_def split: if_splits)
  let ?P = "\<lambda>j (s :: int \<times> real). 0 \<le> fst s \<or> (j = 0 \<and> \<not> (?ts ! 0 \<le> time - irf_time ! 0 \<and> time - irf_time ! 0 \<le> last ?ts))"
  let ?body = "convolution_pass indet st irf_time irf_val irf_width (?ts ! 0) (last ?ts) dof time"
  let ?s0 = "(start_index lower_index ?ts (?ts ! 0) (last ?ts) (time - irf_time ! 0), 0 :: real)"
  have loop: "for_loop [0 ..< length irf_time] ?body ?s0 \<noteq> Inl CursorBelowZero"
  proof -
    have "for_loop [0 ..< length irf_time] ?body ?s0 \<noteq> Inl CursorBelowZero \<and>
          (\<forall>s'. for_loop [0 ..< length irf_time] ?body ?s0 = Inr s' \<longrightarrow> ?P (length irf_time) s')"
    proof (rule for_loop_avoids[where P = ?P])
      show "?P 0 ?s0"
        using start_index_safe[OF ne assms, of "time - irf_time ! 0"] by auto
    next
      fix j and s :: "int \<times> real" assume "j < length irf_time" and P: "?P j s"
      obtain idx f where s: "s = (idx, f)" by (cases s)
      have "0 \<le> idx \<or> \<not> (?ts ! 0 \<le> time - irf_time ! j \<and> time - irf_time ! j \<le> last ?ts)"
        using P s by auto
      from pass_avoids_cursor_fault[OF this, of indet irf_val irf_width dof f]
      show "?body j s \<noteq> Inl CursorBelowZero \<and> (\<forall>t'. ?body j s = Inr t' \<longrightarrow> ?P (Suc j) t')"
        unfolding s by blast
    qed
    then show ?thesis by blast
  qed
  show "(let t_tau = time - tau0; idx = start_index lower_index ?ts tmin tmax t_tau
         in and_then (for_loop [0 ..< length irf_time]
                        (convolution_pass indet st irf_time irf_val irf_width tmin tmax dof time) (idx, 0.0))
              (\<lambda>(idx, f_ex). Inr f_ex)) \<noteq> Inl CursorBelowZero"
    unfolding Let_def tmin' tmax' tau0'
    by (rule and_then_avoids) (use loop in \<open>auto simp: split_beta\<close>)
qed

lemma for_loop_never:
  assumes "\<And>i t. i < n \<Longrightarrow> body i t \<noteq> Inl e"
  shows "for_loop [0 ..< n] body s \<noteq> Inl e"
  using for_loop_avoids[where P = "\<lambda>i t. True" and n = n and body = body and e = e and s = s] assms
  by blast

lemma GetForceAtTime_avoids_cursor_fault:
  assumes "nonnegative_inside lower_index (free_surface_time_sampled st)"
  shows "IrregularWaves_GetForceAtTime lower_index indet st time \<noteq> Inl CursorBelowZero"
  unfolding IrregularWaves_GetForceAtTime_def
  by (intro for_loop_never and_then_avoids ExcitationConvolution_avoids_cursor_fault[OF assms])
     (simp add: Let_def)

text \<open>
  Claim C8: there are an ascending history, an ascending IRF time grid and a query time
  with every lag inside the window for which the walk-back loop of
  \<^verbatim>\<open>ExcitationConvolution\<close> reads the history at a negative index. No such query
  exists: the loop runs only for a lag that passed the window check, so the first history
  sample is not after the lag and the test \<open>history[idx] > t_tau\<close> fails at index 0 at the
  latest. The statement that holds: whenever the helper returns a non-negative index for
  a query strictly inside the window, neither \<^verbatim>\<open>ExcitationConvolution\<close> nor
  \<^verbatim>\<open>GetForceAtTime\<close> reads the history at a negative cursor, for any state, body,
  degree of freedom and time.
\<close>

theorem walk_back_never_reads_below_zero:
  assumes "nonnegative_inside lower_index (free_surface_time_sampled st)"
  shows "ExcitationConvolution lower_index indet st body dof time \<noteq> Inl CursorBelowZero \<and>
         IrregularWaves_GetForceAtTime lower_index indet st time \<noteq> Inl CursorBelowZero"
  using ExcitationConvolution_avoids_cursor_fault[OF assms] GetForceAtTime_avoids_cursor_fault[OF assms]
  by blast

lemma example_helper_nonnegative:
  "nonnegative_inside get_lower_index (free_surface_time_sampled convolution_example)"
  by (auto simp: nonnegative_inside_def get_lower_index_def convolution_example_def)

theorem walk_back_never_reads_below_zero_witness:
  "nonnegative_inside get_lower_index (free_surface_time_sampled convolution_example) \<and>
   ExcitationConvolution get_lower_index (\<lambda>j. 0) convolution_example 0 0 (3 / 2) \<noteq> Inl CursorBelowZero \<and>
   IrregularWaves_GetForceAtTime get_lower_index (\<lambda>j. 0) convolution_example (3 / 2) \<noteq> Inl CursorBelowZero"
  using walk_back_never_reads_below_zero[OF example_helper_nonnegative, of "\<lambda>j. 0" 0 0 "3 / 2"]
    example_helper_nonnegative
  by blast

text \<open>
  The refutation of claim C8 as it is stated: no helper that is non-negative inside the
  window, state, body, degree of freedom and time with ascending grids and every lag in
  the window makes the walk-back loop read below index zero.
\<close>

theorem no_query_walks_below_zero:
  "\<not> (\<exists>lower_index indet st body dof time.
        nonnegative_inside lower_index (free_surface_time_sampled st) \<and>
        sorted (free_surface_time_sampled st) \<and> sorted (ex_irf_time_sampled st ! nat body) \<and>
        (\<forall>j<length (ex_irf_time_sampled st ! nat body). in_window st (lag st body time j)) \<and>
        ExcitationConvolution lower_index indet st body dof time = Inl CursorBelowZero)"
  using ExcitationConvolution_avoids_cursor_fault by blast

section \<open>The resampled IRF grid\<close>












section \<open>The window of the synthesised history\<close>


lemma finite_irf_end_times: "finite (irf_end_times grids)" "irf_end_times grids \<noteq> {}"
  by (simp_all add: irf_end_times_def)



lemma t_irf_min_max_sign: "t_irf_min grids \<le> 0" "0 \<le> t_irf_max grids"
proof -
  have "0 \<in> irf_end_times grids"
    by (simp add: irf_end_times_def)
  then show "t_irf_min grids \<le> 0" "0 \<le> t_irf_max grids"
    unfolding t_irf_min_def t_irf_max_def
    using finite_irf_end_times(1)[of grids] by (simp_all add: Min_le Max_ge)
qed












end
